theory Spec2Isabelle
  imports Main "HOL-Library.Sublist" "HOL-Library.AList"
begin

section \<open>JSON values and the Python operations the hooks apply to them\<close>

text \<open>
  Both hooks work on whatever \<^verbatim>\<open>json.load\<close> returns, so the model starts from the values
  that function can produce. A JSON object becomes a Python dict, which keeps its keys in
  insertion order: it is an association list here. A Python \<^verbatim>\<open>str\<close> is the list of the
  bytes of its UTF-8 encoding; one string occurs inside another exactly when its bytes occur
  as a contiguous run. Numbers with a fraction or an exponent (Python floats) and values
  nested deeper than the interpreter's recursion limit are left out of the model.
\<close>

datatype json =
    JNull
  | JBool bool
  | JInt int
  | JStr string
  | JList "json list"
  | JObj "(string \<times> json) list"

text \<open>The exceptions that the operations below raise in Python.\<close>

datatype py_error = AttributeError | TypeError | KeyError | IndexError | ValueError | OSError

text \<open>\<^verbatim>\<open>d.get(k, default)\<close>: only a dict has the method.\<close>

fun py_get :: "json \<Rightarrow> string \<Rightarrow> json \<Rightarrow> py_error + json" where
  "py_get (JObj kvs) k d = Inr (case map_of kvs k of None \<Rightarrow> d | Some v \<Rightarrow> v)"
| "py_get _ k d = Inl AttributeError"

text \<open>\<^verbatim>\<open>d[k] = v\<close> with a string key: an existing key keeps its place, a new one goes last.\<close>

fun py_setitem :: "json \<Rightarrow> string \<Rightarrow> json \<Rightarrow> py_error + json" where
  "py_setitem (JObj kvs) k v = Inr (JObj (AList.update k v kvs))"
| "py_setitem _ k v = Inl TypeError"

text \<open>Truth value of an object, as \<^verbatim>\<open>if x\<close>, \<^verbatim>\<open>not x\<close> and \<^verbatim>\<open>x or y\<close> test it.\<close>

fun truthy :: "json \<Rightarrow> bool" where
  "truthy JNull = False"
| "truthy (JBool b) = b"
| "truthy (JInt n) = (n \<noteq> 0)"
| "truthy (JStr s) = (s \<noteq> [])"
| "truthy (JList xs) = (xs \<noteq> [])"
| "truthy (JObj kvs) = (kvs \<noteq> [])"

text \<open>
  An operand of integer arithmetic or of a comparison with an integer
  (\<^verbatim>\<open>x + 1\<close>, \<^verbatim>\<open>x < 3\<close>, \<^verbatim>\<open>now - x\<close>): \<^verbatim>\<open>bool\<close> is a subclass of \<^verbatim>\<open>int\<close>,
  every other type raises TypeError.
\<close>

fun py_int :: "json \<Rightarrow> py_error + int" where
  "py_int (JInt n) = Inr n"
| "py_int (JBool b) = Inr (if b then 1 else 0)"
| "py_int _ = Inl TypeError"

text \<open>
  \<^verbatim>\<open>str.lower()\<close> is a function of the Python library that follows the Unicode case
  mappings (it turns U+0130 into an \<^verbatim>\<open>i\<close> and a combining dot, for one). The hooks take it
  as it is, and so does the model: it is a parameter \<open>str_lower\<close> of everything that
  lower-cases. What is known of it, and used for concrete paths only, is what it does to
  a string of ASCII characters: the letters A to Z become a to z, nothing else changes.
\<close>

definition is_ascii :: "char \<Rightarrow> bool" where
  "is_ascii c = ((of_char c :: nat) < 128)"

definition ascii_lower_char :: "char \<Rightarrow> char" where
  "ascii_lower_char c =
     (let n = (of_char c :: nat) in if 65 \<le> n \<and> n \<le> 90 then char_of (n + 32) else c)"

definition ascii_lower :: "string \<Rightarrow> string" where
  "ascii_lower s = map ascii_lower_char s"

definition lowers_ascii :: "(string \<Rightarrow> string) \<Rightarrow> bool" where
  "lowers_ascii str_lower = (\<forall>s. list_all is_ascii s \<longrightarrow> str_lower s = ascii_lower s)"

text \<open>\<^verbatim>\<open>needle in haystack\<close> on two strings: the needle occurs as a contiguous run.\<close>

fun str_contains :: "string \<Rightarrow> string \<Rightarrow> bool" where
  "str_contains needle [] = (needle = [])"
| "str_contains needle (c # cs) = (prefix needle (c # cs) \<or> str_contains needle cs)"

text \<open>
  \<^verbatim>\<open>s in x\<close> for a string \<open>s\<close>: a substring test on a string, an element test on a list,
  a key test on a dict, TypeError on everything else.
\<close>

fun py_contains :: "string \<Rightarrow> json \<Rightarrow> py_error + bool" where
  "py_contains s (JStr t) = Inr (str_contains s t)"
| "py_contains s (JList xs) = Inr (JStr s \<in> set xs)"
| "py_contains s (JObj kvs) = Inr (s \<in> set (map fst kvs))"
| "py_contains s _ = Inl TypeError"

text \<open>\<^verbatim>\<open>x.append(v)\<close>: only a list has the method. The result is the list after the call.\<close>

fun py_append :: "json \<Rightarrow> json \<Rightarrow> py_error + json list" where
  "py_append (JList xs) v = Inr (xs @ [v])"
| "py_append _ v = Inl AttributeError"

text \<open>
  The last character of a string, as bytes: the last byte that is not a UTF-8 continuation
  byte (\<^verbatim>\<open>10xxxxxx\<close>) and the continuation bytes after it. The argument of
  \<open>last_char_rev\<close> is the string reversed.
\<close>

definition continuation_byte :: "char \<Rightarrow> bool" where
  "continuation_byte c = (128 \<le> (of_char c :: nat) \<and> (of_char c :: nat) < 192)"

fun last_char_rev :: "string \<Rightarrow> string" where
  "last_char_rev [] = []"
| "last_char_rev (c # cs) = (if continuation_byte c then last_char_rev cs @ [c] else [c])"

definition last_char :: "string \<Rightarrow> string" where
  "last_char s = last_char_rev (rev s)"

text \<open>
  \<^verbatim>\<open>x[-1]\<close>: the last element of a list, the last character of a string (IndexError when
  there is none), KeyError on a dict (its keys are strings), TypeError otherwise.
\<close>

fun py_last :: "json \<Rightarrow> py_error + json" where
  "py_last (JList xs) = (if xs = [] then Inl IndexError else Inr (last xs))"
| "py_last (JStr s) = (if s = [] then Inl IndexError else Inr (JStr (last_char s)))"
| "py_last (JObj kvs) = Inl KeyError"
| "py_last _ = Inl TypeError"

text \<open>
  How an f-string renders a value: a string as itself; for any other value Python's
  built-in \<^verbatim>\<open>str\<close> decides, which is not code of the hooks and is taken as a parameter.
\<close>

fun py_format :: "(json \<Rightarrow> string) \<Rightarrow> json \<Rightarrow> string" where
  "py_format builtin_str (JStr s) = s"
| "py_format builtin_str v = builtin_str v"

subsection \<open>The limit on the digits of an integer\<close>

text \<open>
  Python (3.11 and later, and the patched earlier releases) refuses to convert between an
  integer and a decimal string of more than 4300 digits: both \<^verbatim>\<open>json.load\<close>, on a text
  that holds such a number, and \<^verbatim>\<open>json.dump\<close>, on a value that holds one, raise
  ValueError. The sign does not count.
\<close>

definition digit_limit :: int where
  "digit_limit = 10 ^ 4300"

definition int_ok :: "int \<Rightarrow> bool" where
  "int_ok n = (\<bar>n\<bar> < digit_limit)"

fun digits_ok :: "json \<Rightarrow> bool" where
  "digits_ok (JInt n) = int_ok n"
| "digits_ok (JList xs) = list_all digits_ok xs"
| "digits_ok (JObj kvs) = list_all (\<lambda>kv. digits_ok (snd kv)) kvs"
| "digits_ok _ = True"

text \<open>
  \<^verbatim>\<open>json.load\<close> on the JSON text of a value: the value, or \<open>None\<close> when it raises.
\<close>

definition json_load :: "json \<Rightarrow> json option" where
  "json_load j = (if digits_ok j then Some j else None)"

subsection \<open>The clock\<close>

text \<open>
  A clock reading is \<^verbatim>\<open>int(time.time() * 1000)\<close>: the integer part of a finite float,
  hence an integer below \<open>2 ^ 1024\<close> in absolute value. \<open>ms\<close> gives the integer of a
  reading, \<open>clock\<close> the reading for an integer in that range.
\<close>

typedef clock_ms = "{n::int. \<bar>n\<bar> < 2 ^ 1024}"
  morphisms ms clock
  by (rule exI [of _ 0]) simp

section \<open>The tracker file and the process environment\<close>

text \<open>
  Standard input: a text that is not JSON, or the JSON text of a value.
\<close>

datatype stdin_content = Unparseable | Parsed json

text \<open>\<^verbatim>\<open>json.load(sys.stdin)\<close>: \<open>None\<close> when it raises.\<close>

definition load_stdin :: "stdin_content \<Rightarrow> json option" where
  "load_stdin input = (case input of Unparseable \<Rightarrow> None | Parsed j \<Rightarrow> json_load j)"

text \<open>
  The tracker file: absent, present with a content that is not JSON (a file cut off in the
  middle of a write is one), or holding the JSON text of a value.
\<close>

datatype stored = Absent | Corrupt | Stored json

text \<open>
  The part of the file system the hooks touch. \<open>dir_ok\<close> says whether
  \<^verbatim>\<open>os.makedirs(dirname, exist_ok=True)\<close> succeeds, \<open>file_writable\<close> whether
  \<^verbatim>\<open>open(TRACKER_FILE, 'w')\<close> does and the device takes what is written; \<open>writes\<close>
  counts the completed writes of the file.
\<close>

record filesys =
  tracker_file :: stored
  dir_ok :: bool
  file_writable :: bool
  writes :: nat

definition default_tracker :: json where
  "default_tracker = JObj
     [(''tool_count'', JInt 0), (''last_learning_prompt'', JInt 0),
      (''senior_enabled'', JBool True), (''after_enabled'', JBool True),
      (''concepts'', JList [])]"

definition ensure_dir :: "filesys \<Rightarrow> py_error + unit" where
  "ensure_dir fs = (if dir_ok fs then Inr () else Inl OSError)"

text \<open>
  The \<^verbatim>\<open>try\<close> block of \<^verbatim>\<open>load_tracker\<close>, the same in both files: the value in the file,
  or the default record when there is no file or when opening or \<^verbatim>\<open>json.load\<close> raises.
\<close>

definition read_tracker :: "filesys \<Rightarrow> json" where
  "read_tracker fs =
     (case tracker_file fs of
        Stored j \<Rightarrow> (case json_load j of Some v \<Rightarrow> v | None \<Rightarrow> default_tracker)
      | _ \<Rightarrow> default_tracker)"

text \<open>\<^verbatim>\<open>load_tracker\<close> of \<^verbatim>\<open>track_activity.py\<close>: it creates the directory first, outside the \<^verbatim>\<open>try\<close>.\<close>

definition load_tracker_track :: "filesys \<Rightarrow> py_error + json" where
  "load_tracker_track fs =
     (case ensure_dir fs of
        Inl e \<Rightarrow> Inl e
      | Inr _ \<Rightarrow> Inr (read_tracker fs))"

text \<open>\<^verbatim>\<open>load_tracker\<close> of \<^verbatim>\<open>check_learning.py\<close>: no directory is created, nothing can raise.\<close>

definition load_tracker_check :: "filesys \<Rightarrow> json" where
  "load_tracker_check fs = read_tracker fs"

text \<open>
  \<^verbatim>\<open>save_tracker\<close>, the same in both files: create the directory, open the file for writing,
  dump the tracker. No step is inside a \<^verbatim>\<open>try\<close>. Opening the file empties it, and
  \<^verbatim>\<open>json.dump\<close> writes piece by piece: when it raises on an integer over the digit limit,
  the file is left cut off, which no later \<^verbatim>\<open>json.load\<close> accepts. The result is the error
  with the file system at that point, or the file system after the write.
\<close>

definition save_tracker :: "filesys \<Rightarrow> json \<Rightarrow> (py_error \<times> filesys) + filesys" where
  "save_tracker fs tracker =
     (case ensure_dir fs of
        Inl e \<Rightarrow> Inl (e, fs)
      | Inr _ \<Rightarrow>
          (if \<not> file_writable fs then Inl (OSError, fs)
           else if digits_ok tracker
           then Inr (fs\<lparr>tracker_file := Stored tracker, writes := Suc (writes fs)\<rparr>)
           else Inl (ValueError, fs\<lparr>tracker_file := Corrupt\<rparr>)))"

text \<open>
  What one run of a hook leaves behind: the exit status of the process (0 after
  \<^verbatim>\<open>sys.exit(0)\<close>, 1 after an exception nobody caught), the exception if there was one,
  the JSON value printed on standard output if there was one, and the file system.
\<close>

record outcome =
  exit_status :: nat
  raised :: "py_error option"
  stdout :: "json option"
  fs_after :: filesys

definition exit0 :: "filesys \<Rightarrow> json option \<Rightarrow> outcome" where
  "exit0 fs out = \<lparr>exit_status = 0, raised = None, stdout = out, fs_after = fs\<rparr>"

definition uncaught :: "filesys \<Rightarrow> py_error \<Rightarrow> outcome" where
  "uncaught fs e = \<lparr>exit_status = 1, raised = Some e, stdout = None, fs_after = fs\<rparr>"

text \<open>
  One statement that may raise, followed by the rest of \<^verbatim>\<open>main\<close>: an exception ends the
  process with the file system as it is at that point. \<open>attempt_save\<close> is the same for
  the call of \<^verbatim>\<open>save_tracker\<close>, whose failure may leave the file changed.
\<close>

definition attempt :: "py_error + 'a \<Rightarrow> filesys \<Rightarrow> ('a \<Rightarrow> outcome) \<Rightarrow> outcome" where
  "attempt r fs k = (case r of Inl e \<Rightarrow> uncaught fs e | Inr x \<Rightarrow> k x)"

definition attempt_save :: "(py_error \<times> filesys) + filesys \<Rightarrow> (filesys \<Rightarrow> outcome) \<Rightarrow> outcome" where
  "attempt_save r k = (case r of Inl (e, fs') \<Rightarrow> uncaught fs' e | Inr fs' \<Rightarrow> k fs')"

section \<open>The activity tracker (\<^verbatim>\<open>track_activity.py\<close>)\<close>

definition SIGNIFICANT_TOOLS :: "string list" where
  "SIGNIFICANT_TOOLS = [''Edit'', ''Write'', ''Bash'']"

definition patterns :: "(string list \<times> string) list" where
  "patterns =
     [([''test'', ''spec''], ''unit-testing''),
      ([''auth'', ''login'', ''jwt''], ''authentication''),
      ([''api'', ''endpoint'', ''route''], ''api-design''),
      ([''cache'', ''redis''], ''caching''),
      ([''.tsx'', ''.jsx''], ''react-components''),
      ([''db'', ''database'', ''prisma''], ''database'')]"

text \<open>The inner loop \<^verbatim>\<open>for kw in keywords\<close>: does some keyword occur in the path?\<close>

fun any_keyword :: "(string \<Rightarrow> string) \<Rightarrow> string list \<Rightarrow> string \<Rightarrow> bool" where
  "any_keyword str_lower [] file_path = False"
| "any_keyword str_lower (kw # kws) file_path =
     (if str_contains (str_lower kw) (str_lower file_path) then True
      else any_keyword str_lower kws file_path)"

text \<open>The outer loop \<^verbatim>\<open>for keywords, concept in patterns\<close>, returning at the first hit.\<close>

fun first_pattern ::
    "(string \<Rightarrow> string) \<Rightarrow> (string list \<times> string) list \<Rightarrow> string \<Rightarrow> string option" where
  "first_pattern str_lower [] file_path = None"
| "first_pattern str_lower ((keywords, concept) # rest) file_path =
     (if any_keyword str_lower keywords file_path then Some concept
      else first_pattern str_lower rest file_path)"

text \<open>
  \<^verbatim>\<open>extract_concept\<close>. The path is \<^verbatim>\<open>file_path\<close> unless that is missing or falsy, then
  \<^verbatim>\<open>path\<close>; calling \<^verbatim>\<open>.lower()\<close> on it raises AttributeError unless it is a string.
\<close>

definition extract_concept ::
    "(string \<Rightarrow> string) \<Rightarrow> json \<Rightarrow> json \<Rightarrow> py_error + string option" where
  "extract_concept str_lower tool_name tool_input =
     (case py_get tool_input ''file_path'' (JStr []) of
        Inl e \<Rightarrow> Inl e
      | Inr fp \<Rightarrow>
     (case (if truthy fp then Inr fp else py_get tool_input ''path'' (JStr [])) of
        Inl e \<Rightarrow> Inl e
      | Inr file_path \<Rightarrow>
     (case py_get tool_input ''command'' (JStr []) of
        Inl e \<Rightarrow> Inl e
      | Inr command \<Rightarrow>
     (case file_path of
        JStr p \<Rightarrow>
          (case first_pattern str_lower patterns p of
             Some concept \<Rightarrow> Inr (Some concept)
           | None \<Rightarrow>
               (case py_contains ''git'' command of
                  Inl e \<Rightarrow> Inl e
                | Inr True \<Rightarrow> Inr (Some ''git-workflow'')
                | Inr False \<Rightarrow>
                    (case py_contains ''docker'' command of
                       Inl e \<Rightarrow> Inl e
                     | Inr True \<Rightarrow> Inr (Some ''containerization'')
                     | Inr False \<Rightarrow> Inr None)))
      | _ \<Rightarrow> Inl AttributeError))))"

text \<open>
  Lines 64 to 69 of \<^verbatim>\<open>main\<close>: the concept is appended unless it is there already, and the
  first entry is popped when that makes more than 10.
\<close>

definition record_concept :: "json \<Rightarrow> string \<Rightarrow> py_error + json" where
  "record_concept tracker concept =
     (case py_get tracker ''concepts'' (JList []) of
        Inl e \<Rightarrow> Inl e
      | Inr concepts \<Rightarrow>
     (case py_contains concept concepts of
        Inl e \<Rightarrow> Inl e
      | Inr True \<Rightarrow> Inr tracker
      | Inr False \<Rightarrow>
     (case py_append concepts (JStr concept) of
        Inl e \<Rightarrow> Inl e
      | Inr appended \<Rightarrow>
          py_setitem tracker ''concepts''
            (JList (if length appended > 10 then tl appended else appended)))))"

definition track_activity_main ::
    "(string \<Rightarrow> string) \<Rightarrow> filesys \<Rightarrow> stdin_content \<Rightarrow> outcome" where
  "track_activity_main str_lower fs input =
     (case load_stdin input of
        None \<Rightarrow> exit0 fs None
      | Some data \<Rightarrow>
          attempt (py_get data ''tool_name'' (JStr [])) fs (\<lambda>tool_name.
          if tool_name \<notin> set (map JStr SIGNIFICANT_TOOLS) then exit0 fs None
          else
          attempt (load_tracker_track fs) fs (\<lambda>tracker.
          attempt (py_get tracker ''tool_count'' (JInt 0)) fs (\<lambda>tool_count.
          attempt (py_int tool_count) fs (\<lambda>n.
          attempt (py_setitem tracker ''tool_count'' (JInt (n + 1))) fs (\<lambda>tracker1.
          attempt (py_get data ''tool_input'' (JObj [])) fs (\<lambda>tool_input.
          attempt (extract_concept str_lower tool_name tool_input) fs (\<lambda>concept.
          attempt (case concept of
                     None \<Rightarrow> Inr tracker1
                   | Some c \<Rightarrow> if c = [] then Inr tracker1 else record_concept tracker1 c)
            fs (\<lambda>tracker2.
          attempt_save (save_tracker fs tracker2) (\<lambda>fs'.
          exit0 fs' None))))))))))"

section \<open>The learning trigger (\<^verbatim>\<open>check_learning.py\<close>)\<close>

definition TOOL_THRESHOLD :: int where
  "TOOL_THRESHOLD = 3"

definition COOLDOWN_MS :: int where
  "COOLDOWN_MS = 15 * 60 * 1000"

definition nl :: char where
  "nl = CHR 0x0A"

definition dq :: char where
  "dq = CHR 0x22"

definition sq :: char where
  "sq = CHR 0x27"

fun join_lines :: "string list \<Rightarrow> string" where
  "join_lines [] = []"
| "join_lines [l] = l"
| "join_lines (l # ls) = l @ [nl] @ join_lines ls"

text \<open>The f-string of \<^verbatim>\<open>main\<close>, as a function of the rendered concept hint.\<close>

definition reason :: "string \<Rightarrow> string" where
  "reason concept_hint = join_lines
     [''[VibeLearning - Task Completion]'',
      '''',
      ''Execute these steps NOW:'',
      '''',
      ''1. Record 1-2 unknown unknowns (related concepts user might not know):'',
      ''   mcp__vibe-learning__record_unknown_unknown({'',
      ''     concept_id: '' @ [dq] @ ''related-concept'' @ [dq] @ '','',
      ''     related_to: '' @ [dq] @ concept_hint @ [dq] @ '','',
      ''     context: '' @ [dq] @ ''brief context'' @ [dq] @ '','',
      ''     why_important: '' @ [dq] @ ''why important'' @ [dq],
      ''   })'',
      '''',
      ''2. Call mcp__vibe-learning__should_ask_question to check if learning question needed.'',
      '''',
      ''3. If shouldAsk is true:'',
      ''   - Call mcp__vibe-learning__get_concept_level with concept_id='' @ [sq] @ concept_hint @ [sq],
      ''   - Ask with format:'',
      ''     **[VibeLearning]**'',
      ''     _Learning Question (Level X)_'',
      ''     [Your question]?'',
      ''   - After answer, call mcp__vibe-learning__record_learning'',
      '''',
      ''4. If shouldAsk is false: you may stop.'']"

text \<open>The object that \<^verbatim>\<open>main\<close> dumps on standard output when it blocks.\<close>

definition block :: "string \<Rightarrow> json" where
  "block text = JObj [(''decision'', JStr ''block''), (''reason'', JStr text)]"

text \<open>
  \<^verbatim>\<open>main\<close> of \<^verbatim>\<open>check_learning.py\<close>; \<open>clock_reading\<close> is what the clock gives at line
  39. The parsed event \<open>data\<close> is bound and never read.
\<close>

definition check_learning_main ::
    "(json \<Rightarrow> string) \<Rightarrow> filesys \<Rightarrow> stdin_content \<Rightarrow> clock_ms \<Rightarrow> outcome" where
  "check_learning_main builtin_str fs input clock_reading =
     (let data = (case load_stdin input of None \<Rightarrow> JObj [] | Some j \<Rightarrow> j);
          tracker = load_tracker_check fs
      in
      attempt (py_get tracker ''tool_count'' (JInt 0)) fs (\<lambda>tool_count.
      attempt (py_get tracker ''last_learning_prompt'' (JInt 0)) fs (\<lambda>last_prompt.
      attempt (py_get tracker ''after_enabled'' (JBool True)) fs (\<lambda>after_enabled.
      if \<not> truthy after_enabled then exit0 fs None
      else
      attempt (py_int tool_count) fs (\<lambda>count.
      if count < TOOL_THRESHOLD then exit0 fs None
      else
      let now = ms clock_reading in
      attempt (py_int last_prompt) fs (\<lambda>last.
      if now - last < COOLDOWN_MS then exit0 fs None
      else
      attempt (py_get tracker ''concepts'' (JList [])) fs (\<lambda>concepts.
      attempt (if truthy concepts then py_last concepts
               else Inr (JStr ''the task you just completed'')) fs (\<lambda>concept_hint.
      attempt (py_setitem tracker ''tool_count'' (JInt 0)) fs (\<lambda>tracker1.
      attempt (py_setitem tracker1 ''last_learning_prompt'' (JInt now)) fs (\<lambda>tracker2.
      attempt_save (save_tracker fs tracker2) (\<lambda>fs'.
      exit0 fs' (Some (block (reason (py_format builtin_str concept_hint)))))))))))))))"

section \<open>The tracker state and the tool event of the specification\<close>

text \<open>
  The specification speaks of a typed record and of typed events. They are related to what
  the hooks read by their JSON encodings: the key order is the one of the default tracker.
\<close>

record TrackerState =
  toolCount :: int
  lastLearningPromptAt :: int
  afterModeEnabled :: bool
  seniorModeEnabled :: bool
  recentConcepts :: "string list"

definition state_fields :: "TrackerState \<Rightarrow> (string \<times> json) list" where
  "state_fields s =
     [(''tool_count'', JInt (toolCount s)),
      (''last_learning_prompt'', JInt (lastLearningPromptAt s)),
      (''senior_enabled'', JBool (seniorModeEnabled s)),
      (''after_enabled'', JBool (afterModeEnabled s)),
      (''concepts'', JList (map JStr (recentConcepts s)))]"

definition encode_state :: "TrackerState \<Rightarrow> json" where
  "encode_state s = JObj (state_fields s)"

record ToolEvent =
  toolName :: string
  toolInput :: "(string \<times> json) list"

definition encode_event :: "ToolEvent \<Rightarrow> json" where
  "encode_event ev = JObj [(''tool_name'', JStr (toolName ev)), (''tool_input'', JObj (toolInput ev))]"

text \<open>
  The state a hook works on when it starts on file system \<open>fs\<close>: what \<^verbatim>\<open>load_tracker\<close>
  returns is the encoding of \<open>s\<close> (the file holds it, or the file is absent or cannot be
  loaded and \<open>s\<close> is the default record).
\<close>

definition holds_state :: "filesys \<Rightarrow> TrackerState \<Rightarrow> bool" where
  "holds_state fs s = (load_tracker_check fs = encode_state s)"

definition default_state :: TrackerState where
  "default_state = \<lparr>toolCount = 0, lastLearningPromptAt = 0, afterModeEnabled = True,
     seniorModeEnabled = True, recentConcepts = []\<rparr>"

text \<open>Lines 64 to 69 of \<^verbatim>\<open>track_activity.py\<close> on a list of strings.\<close>

definition push_concept :: "string \<Rightarrow> string list \<Rightarrow> string list" where
  "push_concept c cs =
     (if c \<in> set cs then cs
      else if length (cs @ [c]) > 10 then tl (cs @ [c]) else cs @ [c])"


text \<open>The concept hint of \<^verbatim>\<open>check_learning.py\<close> (line 44) on a list of strings.\<close>

definition concept_hint :: "string list \<Rightarrow> string" where
  "concept_hint cs = (if cs = [] then ''the task you just completed'' else last cs)"

text \<open>
  Topic inference as the specification words it: the rules in their fixed order, a rule
  matching when one of its keywords is a substring of the path once both are lower-cased
  (by the library's \<open>str_lower\<close>), the topic of the first matching rule; the two command
  rules only when no rule matched.
\<close>

definition topic_rules :: "(string list \<times> string) list" where
  "topic_rules =
     [([''test'', ''spec''], ''unit-testing''),
      ([''auth'', ''login'', ''jwt''], ''authentication''),
      ([''api'', ''endpoint'', ''route''], ''api-design''),
      ([''cache'', ''redis''], ''caching''),
      ([''.tsx'', ''.jsx''], ''react-components''),
      ([''db'', ''database'', ''prisma''], ''database'')]"

definition rule_matches :: "(string \<Rightarrow> string) \<Rightarrow> string \<Rightarrow> string list \<times> string \<Rightarrow> bool" where
  "rule_matches str_lower path rule =
     list_ex (\<lambda>kw. sublist (str_lower kw) (str_lower path)) (fst rule)"

definition inferTopic :: "(string \<Rightarrow> string) \<Rightarrow> string \<Rightarrow> string \<Rightarrow> string option" where
  "inferTopic str_lower path command =
     (case find (rule_matches str_lower path) topic_rules of
        Some rule \<Rightarrow> Some (snd rule)
      | None \<Rightarrow>
          if sublist ''git'' command then Some ''git-workflow''
          else if sublist ''docker'' command then Some ''containerization''
          else None)"

text \<open>
  A field of the tool input that is a string when present, with the empty string standing
  for a missing one; \<open>None\<close> when the field holds something else.
\<close>

definition string_field :: "(string \<times> json) list \<Rightarrow> string \<Rightarrow> string option" where
  "string_field kvs k =
     (case map_of kvs k of
        None \<Rightarrow> Some []
      | Some (JStr s) \<Rightarrow> Some s
      | Some _ \<Rightarrow> None)"

text \<open>
  A stored object read field by field, each missing field taking its default: 0 for the two
  integers, true for the two switches, the empty list for the concepts. \<open>None\<close> when a
  field that is present does not have its type.
\<close>

definition int_field :: "(string \<times> json) list \<Rightarrow> string \<Rightarrow> int \<Rightarrow> int option" where
  "int_field kvs k d =
     (case map_of kvs k of
        None \<Rightarrow> Some d
      | Some (JInt n) \<Rightarrow> Some n
      | Some _ \<Rightarrow> None)"

definition bool_field :: "(string \<times> json) list \<Rightarrow> string \<Rightarrow> bool \<Rightarrow> bool option" where
  "bool_field kvs k d =
     (case map_of kvs k of
        None \<Rightarrow> Some d
      | Some (JBool b) \<Rightarrow> Some b
      | Some _ \<Rightarrow> None)"

fun string_of :: "json \<Rightarrow> string option" where
  "string_of (JStr s) = Some s"
| "string_of _ = None"

fun strings_of :: "json list \<Rightarrow> string list option" where
  "strings_of [] = Some []"
| "strings_of (x # xs) =
     (case (string_of x, strings_of xs) of
        (Some s, Some ss) \<Rightarrow> Some (s # ss)
      | _ \<Rightarrow> None)"

definition strings_field :: "(string \<times> json) list \<Rightarrow> string \<Rightarrow> string list option" where
  "strings_field kvs k =
     (case map_of kvs k of
        None \<Rightarrow> Some []
      | Some (JList xs) \<Rightarrow> strings_of xs
      | Some _ \<Rightarrow> None)"

definition with_defaults :: "(string \<times> json) list \<Rightarrow> TrackerState option" where
  "with_defaults kvs =
     (case (int_field kvs ''tool_count'' 0, int_field kvs ''last_learning_prompt'' 0,
            bool_field kvs ''after_enabled'' True, bool_field kvs ''senior_enabled'' True,
            strings_field kvs ''concepts'') of
        (Some n, Some t, Some a, Some b, Some cs) \<Rightarrow>
          Some \<lparr>toolCount = n, lastLearningPromptAt = t, afterModeEnabled = a,
                seniorModeEnabled = b, recentConcepts = cs\<rparr>
      | _ \<Rightarrow> None)"

section \<open>Sequences of hook runs\<close>






section \<open>Concrete inputs\<close>

definition ex_state :: TrackerState where
  "ex_state = \<lparr>toolCount = 3, lastLearningPromptAt = 0, afterModeEnabled = True,
     seniorModeEnabled = True, recentConcepts = [''authentication'']\<rparr>"

definition ex_fs :: "TrackerState \<Rightarrow> filesys" where
  "ex_fs s = \<lparr>tracker_file = Stored (encode_state s), dir_ok = True, file_writable = True, writes = 0\<rparr>"



definition edit_event :: "string \<Rightarrow> ToolEvent" where
  "edit_event p = \<lparr>toolName = ''Edit'', toolInput = [(''file_path'', JStr p)]\<rparr>"

definition read_event :: ToolEvent where
  "read_event = \<lparr>toolName = ''Read'', toolInput = [(''file_path'', JStr ''src/auth/login.ts'')]\<rparr>"

definition read_only_fs :: filesys where
  "read_only_fs = (ex_fs ex_state)\<lparr>file_writable := False\<rparr>"


definition commit_input :: "(string \<times> json) list" where
  "commit_input = [(''command'', JStr ''git commit -m x'')]"

definition partial_fields :: "(string \<times> json) list" where
  "partial_fields = [(''tool_count'', JInt 5)]"

definition partial_fs :: filesys where
  "partial_fs = \<lparr>tracker_file = Stored (JObj partial_fields), dir_ok = True,
     file_writable = True, writes = 0\<rparr>"

definition partial_state :: TrackerState where
  "partial_state = \<lparr>toolCount = 5, lastLearningPromptAt = 0, afterModeEnabled = True,
     seniorModeEnabled = True, recentConcepts = []\<rparr>"


definition absent_fs :: filesys where
  "absent_fs = \<lparr>tracker_file = Absent, dir_ok = True, file_writable = True, writes = 0\<rparr>"

definition bash_event :: ToolEvent where
  "bash_event = \<lparr>toolName = ''Bash'', toolInput = [(''command'', JStr ''ls -la'')]\<rparr>"

section \<open>Basic facts about the model\<close>

lemma attempt_simps [simp]:
  "attempt (Inr x) fs k = k x"
  "attempt (Inl e) fs k = uncaught fs e"
  by (simp_all add: attempt_def)

lemma attempt_save_simps [simp]:
  "attempt_save (Inr fs') k = k fs'"
  "attempt_save (Inl (e, fs')) k = uncaught fs' e"
  by (simp_all add: attempt_save_def)

lemma fs_after_simps [simp]:
  "fs_after (exit0 fs out) = fs"
  "fs_after (uncaught fs e) = fs"
  by (simp_all add: exit0_def uncaught_def)

lemma raised_simps [simp]:
  "raised (exit0 fs out) = None"
  "raised (uncaught fs e) = Some e"
  by (simp_all add: exit0_def uncaught_def)

lemma float_range_below_limit: "(2::int) ^ 1024 \<le> digit_limit"
proof -
  have "(2::int) ^ 1024 \<le> 10 ^ 1024"
    by (rule power_mono) simp_all
  also have "(10::int) ^ 1024 \<le> 10 ^ 4300"
    by (rule power_increasing) simp_all
  finally show ?thesis
    unfolding digit_limit_def .
qed

lemma small_int_ok: "\<bar>n\<bar> < 2 ^ 1024 \<Longrightarrow> int_ok n"
  using float_range_below_limit unfolding int_ok_def by linarith

lemma ms_int_ok [simp]: "int_ok (ms t)"
  using ms [of t] by (simp add: small_int_ok)

lemma ms_clock: "\<bar>n\<bar> < 2 ^ 1024 \<Longrightarrow> ms (clock n) = n"
  by (simp add: clock_inverse)

lemma int_ok_0 [simp]: "int_ok 0"
  by (simp add: small_int_ok)


lemma int_ok_succ: "int_ok n \<Longrightarrow> int_ok (n + 1) \<longleftrightarrow> n + 1 < digit_limit"
  unfolding int_ok_def by linarith

lemma digits_ok_strings [simp]: "list_all digits_ok (map JStr cs)"
  by (induction cs) simp_all

lemma digits_ok_state:
  "digits_ok (encode_state s) \<longleftrightarrow> int_ok (toolCount s) \<and> int_ok (lastLearningPromptAt s)"
  by (simp add: encode_state_def state_fields_def)

lemma default_state_encoded: "encode_state default_state = default_tracker"
  by (simp add: encode_state_def state_fields_def default_state_def default_tracker_def)

lemma digits_ok_default [simp]: "digits_ok default_tracker"
  by (simp add: default_tracker_def)







lemma load_track_holds:
  "holds_state fs s \<Longrightarrow>
     load_tracker_track fs = (if dir_ok fs then Inr (encode_state s) else Inl OSError)"
  by (simp add: holds_state_def load_tracker_track_def load_tracker_check_def ensure_dir_def)

lemma save_tracker_cases:
  "save_tracker fs t =
     (if \<not> dir_ok fs \<or> \<not> file_writable fs then Inl (OSError, fs)
      else if digits_ok t
      then Inr (fs\<lparr>tracker_file := Stored t, writes := Suc (writes fs)\<rparr>)
      else Inl (ValueError, fs\<lparr>tracker_file := Corrupt\<rparr>))"
  by (simp add: save_tracker_def ensure_dir_def)

lemma str_contains_sublist: "str_contains xs ys = sublist xs ys"
  by (induction ys) (auto simp: sublist_Cons_right)

lemma JStr_mem [simp]: "JStr c \<in> JStr ` A \<longleftrightarrow> c \<in> A"
  by auto

lemma strings_of_map [simp]: "strings_of (map JStr ss) = Some ss"
  by (induction ss) auto

lemma strings_of_Some: "strings_of xs = Some ss \<Longrightarrow> xs = map JStr ss"
proof (induction xs arbitrary: ss)
  case Nil
  then show ?case by simp
next
  case (Cons x xs)
  then show ?case
    by (cases x) (auto split: option.splits)
qed

lemma any_keyword_iff:
  "any_keyword l kws p \<longleftrightarrow> list_ex (\<lambda>kw. sublist (l kw) (l p)) kws"
  by (induction kws) (auto simp: str_contains_sublist)

lemma first_pattern_find:
  "first_pattern l ps p = map_option snd (find (rule_matches l p) ps)"
  by (induction ps) (auto simp: rule_matches_def any_keyword_iff)

lemma first_pattern_in: "first_pattern l ps p = Some c \<Longrightarrow> c \<in> snd ` set ps"
  by (induction ps) (auto split: if_splits)

lemma extract_concept_nonempty:
  assumes "extract_concept l tn ti = Inr (Some c)"
  shows "c \<noteq> []"
proof -
  have "c \<in> snd ` set patterns \<or> c = ''git-workflow'' \<or> c = ''containerization''"
    using assms
    by (auto simp: extract_concept_def split: sum.splits json.splits option.splits bool.splits if_splits
        dest: first_pattern_in)
  then show ?thesis
    by (auto simp: patterns_def)
qed

lemma record_concept_state:
  "record_concept (JObj (state_fields s)) c =
     Inr (JObj (state_fields (s\<lparr>recentConcepts := push_concept c (recentConcepts s)\<rparr>)))"
  by (simp add: record_concept_def state_fields_def push_concept_def map_tl)

lemma count_update_state:
  "AList.update ''tool_count'' (JInt n) (state_fields s) = state_fields (s\<lparr>toolCount := n\<rparr>)"
  by (simp add: state_fields_def)

lemma count_of_state:
  "map_of (state_fields s) ''tool_count'' = Some (JInt (toolCount s))"
  by (simp add: state_fields_def)

lemma check_state:
  assumes "holds_state fs s"
  shows "check_learning_main f fs input now =
     (if \<not> afterModeEnabled s \<or> toolCount s < 3 \<or> ms now - lastLearningPromptAt s < 900000
      then exit0 fs None
      else attempt_save
             (save_tracker fs (encode_state (s\<lparr>toolCount := 0, lastLearningPromptAt := ms now\<rparr>)))
             (\<lambda>fs'. exit0 fs' (Some (block (reason (concept_hint (recentConcepts s)))))))"
  using assms
  by (simp add: check_learning_main_def holds_state_def encode_state_def state_fields_def
      TOOL_THRESHOLD_def COOLDOWN_MS_def concept_hint_def last_map Let_def)

lemma digits_ok_after_check [simp]:
  "digits_ok (encode_state (s\<lparr>toolCount := 0, lastLearningPromptAt := ms now\<rparr>))"
  by (simp add: digits_ok_state)

lemma track_state:
  assumes "holds_state fs s"
    and "load_stdin input = Some data"
    and "py_get data ''tool_name'' (JStr []) = Inr tn"
    and "tn \<in> set (map JStr SIGNIFICANT_TOOLS)"
    and "dir_ok fs"
    and "py_get data ''tool_input'' (JObj []) = Inr ti"
    and "extract_concept l tn ti = Inr topic"
  shows "track_activity_main l fs input =
     attempt_save (save_tracker fs (encode_state
        (s\<lparr>toolCount := toolCount s + 1,
           recentConcepts := (case topic of None \<Rightarrow> recentConcepts s
                              | Some c \<Rightarrow> push_concept c (recentConcepts s))\<rparr>)))
       (\<lambda>fs'. exit0 fs' None)"
proof (cases topic)
  case None
  with assms show ?thesis
    by (simp add: track_activity_main_def load_track_holds encode_state_def count_update_state
        count_of_state del: set_map)
next
  case (Some c)
  with assms have "c \<noteq> []"
    using extract_concept_nonempty by blast
  with Some assms show ?thesis
    by (simp add: track_activity_main_def load_track_holds encode_state_def count_update_state
        record_concept_state count_of_state del: set_map)
qed










lemma holds_ex_fs: "digits_ok (encode_state s) \<Longrightarrow> holds_state (ex_fs s) s"
  by (simp add: holds_state_def ex_fs_def load_tracker_check_def read_tracker_def json_load_def)

lemma ex_state_ok: "digits_ok (encode_state ex_state)"
  by (simp add: digits_ok_state ex_state_def small_int_ok)

lemma event_fields [simp]:
  "py_get (encode_event ev) ''tool_name'' (JStr []) = Inr (JStr (toolName ev))"
  "py_get (encode_event ev) ''tool_input'' (JObj []) = Inr (JObj (toolInput ev))"
  by (simp_all add: encode_event_def)

lemma significant_mem:
  "JStr n \<in> set (map JStr SIGNIFICANT_TOOLS) \<longleftrightarrow> n \<in> set SIGNIFICANT_TOOLS"
  by auto

lemma significant_set: "set SIGNIFICANT_TOOLS = {''Edit'', ''Write'', ''Bash''}"
  by (auto simp: SIGNIFICANT_TOOLS_def)

lemma edit_event_loads:
  "load_stdin (Parsed (encode_event (edit_event p))) = Some (encode_event (edit_event p))"
  by (simp add: load_stdin_def json_load_def encode_event_def edit_event_def)

lemma edit_event_topic:
  "extract_concept ascii_lower (JStr (toolName (edit_event ''src/auth/login.ts'')))
     (JObj (toolInput (edit_event ''src/auth/login.ts''))) = Inr (Some ''authentication'')"
  by code_simp




lemma push_concept_known: "c \<in> set cs \<Longrightarrow> push_concept c cs = cs"
  by (simp add: push_concept_def)


lemma any_keyword_cong:
  assumes "\<forall>kw \<in> set kws. l kw = l' kw" and "l p = l' p"
  shows "any_keyword l kws p = any_keyword l' kws p"
  using assms by (induction kws) simp_all

lemma first_pattern_cong:
  assumes "\<forall>r \<in> set ps. \<forall>kw \<in> set (fst r). l kw = l' kw" and "l p = l' p"
  shows "first_pattern l ps p = first_pattern l' ps p"
  using assms
proof (induction ps)
  case Nil
  then show ?case by simp
next
  case (Cons r ps)
  obtain kws c where r: "r = (kws, c)"
    by (cases r)
  from Cons.prems have "any_keyword l kws p = any_keyword l' kws p"
    by (intro any_keyword_cong) (auto simp: r)
  with Cons r show ?case
    by simp
qed

lemma keywords_ascii: "list_all (\<lambda>r. list_all (list_all is_ascii) (fst r)) patterns"
  by code_simp

lemma lowers_ascii_first_pattern:
  assumes "lowers_ascii l" and "list_all is_ascii p"
  shows "first_pattern l patterns p = first_pattern ascii_lower patterns p"
proof (rule first_pattern_cong)
  show "\<forall>r \<in> set patterns. \<forall>kw \<in> set (fst r). l kw = ascii_lower kw"
    using assms(1) keywords_ascii by (auto simp: lowers_ascii_def list_all_iff)
  show "l p = ascii_lower p"
    using assms by (simp add: lowers_ascii_def)
qed

lemma patterns_rules: "patterns = topic_rules"
  by (simp add: patterns_def topic_rules_def)

lemma string_field_get:
  "string_field kvs k = Some v \<Longrightarrow> (case map_of kvs k of None \<Rightarrow> JStr [] | Some x \<Rightarrow> x) = JStr v"
  by (auto simp: string_field_def split: option.splits json.splits)

lemma extract_concept_strings:
  assumes "string_field ti ''file_path'' = Some fp"
    and "string_field ti ''path'' = Some pa"
    and "string_field ti ''command'' = Some cmd"
  shows "extract_concept l tn (JObj ti) = Inr (inferTopic l (if fp = [] then pa else fp) cmd)"
  using assms
  by (simp add: extract_concept_def string_field_get inferTopic_def first_pattern_find
      patterns_rules str_contains_sublist split: option.splits)

lemma path_only_topic:
  assumes "first_pattern l patterns p = Some c" and "p \<noteq> []"
  shows "extract_concept l tn (JObj [(''file_path'', JStr p)]) = Inr (Some c)"
  using assms by (simp add: extract_concept_def)

lemma rule_matches_ascii:
  assumes "lowers_ascii l" and "list_all is_ascii p" and "list_all (list_all is_ascii) (fst r)"
  shows "rule_matches l p r = rule_matches ascii_lower p r"
proof -
  have "any_keyword l (fst r) p = any_keyword ascii_lower (fst r) p"
    using assms by (intro any_keyword_cong) (auto simp: lowers_ascii_def list_all_iff)
  then show ?thesis
    by (simp add: rule_matches_def any_keyword_iff)
qed








lemma with_defaults_fields:
  assumes "with_defaults kvs = Some s"
  shows "int_field kvs ''tool_count'' 0 = Some (toolCount s)"
    and "int_field kvs ''last_learning_prompt'' 0 = Some (lastLearningPromptAt s)"
    and "bool_field kvs ''after_enabled'' True = Some (afterModeEnabled s)"
    and "bool_field kvs ''senior_enabled'' True = Some (seniorModeEnabled s)"
    and "strings_field kvs ''concepts'' = Some (recentConcepts s)"
  using assms by (auto simp: with_defaults_def split: option.splits)

lemma int_field_get:
  "int_field kvs k d = Some n \<Longrightarrow> (case map_of kvs k of None \<Rightarrow> JInt d | Some v \<Rightarrow> v) = JInt n"
  by (auto simp: int_field_def split: option.splits json.splits)

lemma bool_field_get:
  "bool_field kvs k d = Some b \<Longrightarrow> (case map_of kvs k of None \<Rightarrow> JBool d | Some v \<Rightarrow> v) = JBool b"
  by (auto simp: bool_field_def split: option.splits json.splits)

lemma strings_field_get:
  "strings_field kvs k = Some cs \<Longrightarrow>
     (case map_of kvs k of None \<Rightarrow> JList [] | Some v \<Rightarrow> v) = JList (map JStr cs)"
  by (auto simp: strings_field_def split: option.splits json.splits dest: strings_of_Some)

lemma with_defaults_get:
  assumes "with_defaults kvs = Some s"
  shows "(case map_of kvs ''tool_count'' of None \<Rightarrow> JInt 0 | Some v \<Rightarrow> v) = JInt (toolCount s)"
    and "(case map_of kvs ''last_learning_prompt'' of None \<Rightarrow> JInt 0 | Some v \<Rightarrow> v) =
           JInt (lastLearningPromptAt s)"
    and "(case map_of kvs ''after_enabled'' of None \<Rightarrow> JBool True | Some v \<Rightarrow> v) =
           JBool (afterModeEnabled s)"
    and "(case map_of kvs ''concepts'' of None \<Rightarrow> JList [] | Some v \<Rightarrow> v) =
           JList (map JStr (recentConcepts s))"
  using with_defaults_fields [OF assms]
  by (simp_all add: int_field_get bool_field_get strings_field_get)

lemma int_field_update:
  "int_field (AList.update k' v kvs) k d =
     (if k = k' then (case v of JInt n \<Rightarrow> Some n | _ \<Rightarrow> None) else int_field kvs k d)"
  by (simp add: int_field_def update_conv')

lemma bool_field_update:
  "bool_field (AList.update k' v kvs) k d =
     (if k = k' then (case v of JBool b \<Rightarrow> Some b | _ \<Rightarrow> None) else bool_field kvs k d)"
  by (simp add: bool_field_def update_conv')

lemma strings_field_update:
  "strings_field (AList.update k' v kvs) k =
     (if k = k' then (case v of JList xs \<Rightarrow> strings_of xs | _ \<Rightarrow> None) else strings_field kvs k)"
  by (simp add: strings_field_def update_conv')

lemma list_all_update:
  "list_all (\<lambda>kv. P (snd kv)) kvs \<Longrightarrow>
     list_all (\<lambda>kv. P (snd kv)) (AList.update k v kvs) \<longleftrightarrow> P v"
  by (induction kvs) auto

lemma digits_ok_update_ok:
  "digits_ok (JObj kvs) \<Longrightarrow> digits_ok (JObj (AList.update k v kvs)) \<longleftrightarrow> digits_ok v"
  by (simp add: list_all_update)

lemma digits_ok_lookup:
  "digits_ok (JObj kvs) \<Longrightarrow> map_of kvs k = Some v \<Longrightarrow> digits_ok v"
  by (auto simp: list_all_iff dest!: map_of_SomeD)

lemma digits_ok_int_field:
  "digits_ok (JObj kvs) \<Longrightarrow> int_field kvs k 0 = Some n \<Longrightarrow> int_ok n"
  by (auto simp: int_field_def list_all_iff split: option.splits json.splits dest!: map_of_SomeD)

lemma stored_object_loads:
  assumes "tracker_file fs = Stored (JObj kvs)" and "digits_ok (JObj kvs)"
  shows "load_tracker_check fs = JObj kvs"
    and "dir_ok fs \<Longrightarrow> load_tracker_track fs = Inr (JObj kvs)"
  using assms
  by (simp_all add: load_tracker_check_def load_tracker_track_def read_tracker_def json_load_def
      ensure_dir_def)

lemma check_fields:
  assumes "tracker_file fs = Stored (JObj kvs)" and "digits_ok (JObj kvs)"
    and "with_defaults kvs = Some s"
  shows "check_learning_main f fs input now =
     (if \<not> afterModeEnabled s \<or> toolCount s < 3 \<or> ms now - lastLearningPromptAt s < 900000
      then exit0 fs None
      else attempt_save (save_tracker fs (JObj
             (AList.update ''last_learning_prompt'' (JInt (ms now))
               (AList.update ''tool_count'' (JInt 0) kvs))))
             (\<lambda>fs'. exit0 fs' (Some (block (reason (concept_hint (recentConcepts s)))))))"
  by (simp add: check_learning_main_def stored_object_loads(1) [OF assms(1,2)]
      with_defaults_get [OF assms(3)] TOOL_THRESHOLD_def COOLDOWN_MS_def concept_hint_def
      last_map Let_def del: digits_ok.simps)

lemma record_concept_fields:
  assumes "(case map_of kvs ''concepts'' of None \<Rightarrow> JList [] | Some v \<Rightarrow> v) = JList (map JStr cs)"
  shows "record_concept (JObj kvs) c =
     Inr (JObj (if c \<in> set cs then kvs
                else AList.update ''concepts'' (JList (map JStr (push_concept c cs))) kvs))"
  using assms by (simp add: record_concept_def push_concept_def map_tl)

lemma track_fields:
  assumes "tracker_file fs = Stored (JObj kvs)" and "digits_ok (JObj kvs)"
    and "with_defaults kvs = Some s"
    and "load_stdin input = Some data"
    and "py_get data ''tool_name'' (JStr []) = Inr tn"
    and "tn \<in> set (map JStr SIGNIFICANT_TOOLS)"
    and "dir_ok fs"
    and "py_get data ''tool_input'' (JObj []) = Inr ti"
    and "extract_concept l tn ti = Inr topic"
  shows "track_activity_main l fs input =
     attempt_save (save_tracker fs (JObj
        (case topic of
           None \<Rightarrow> AList.update ''tool_count'' (JInt (toolCount s + 1)) kvs
         | Some c \<Rightarrow>
             if c \<in> set (recentConcepts s)
             then AList.update ''tool_count'' (JInt (toolCount s + 1)) kvs
             else AList.update ''concepts'' (JList (map JStr (push_concept c (recentConcepts s))))
                    (AList.update ''tool_count'' (JInt (toolCount s + 1)) kvs))))
       (\<lambda>fs'. exit0 fs' None)"
proof -
  have ld: "load_tracker_track fs = Inr (JObj kvs)"
    using stored_object_loads(2) [OF assms(1,2)] assms(7) by simp
  have g: "(case map_of (AList.update ''tool_count'' (JInt (toolCount s + 1)) kvs) ''concepts'' of
             None \<Rightarrow> JList [] | Some v \<Rightarrow> v) = JList (map JStr (recentConcepts s))"
    using with_defaults_get(4) [OF assms(3)] by (simp add: update_conv')
  show ?thesis
  proof (cases topic)
    case None
    with assms(4-9) ld show ?thesis
      by (simp add: track_activity_main_def with_defaults_get [OF assms(3)] del: set_map)
  next
    case (Some c)
    with assms(9) have "c \<noteq> []"
      using extract_concept_nonempty by blast
    with Some assms(4-9) ld show ?thesis
      by (simp add: track_activity_main_def with_defaults_get [OF assms(3)]
          record_concept_fields [OF g] del: set_map)
  qed
qed

lemma with_defaults_after_check:
  assumes "with_defaults kvs = Some s"
  shows "with_defaults (AList.update ''last_learning_prompt'' (JInt n)
           (AList.update ''tool_count'' (JInt 0) kvs)) =
         Some (s\<lparr>toolCount := 0, lastLearningPromptAt := n\<rparr>)"
  using with_defaults_fields [OF assms]
  by (simp add: with_defaults_def int_field_update bool_field_update strings_field_update)

lemma with_defaults_after_track:
  assumes "with_defaults kvs = Some s"
  shows "with_defaults (AList.update ''tool_count'' (JInt n) kvs) = Some (s\<lparr>toolCount := n\<rparr>)"
    and "with_defaults (AList.update ''concepts'' (JList (map JStr cs))
           (AList.update ''tool_count'' (JInt n) kvs)) =
         Some (s\<lparr>toolCount := n, recentConcepts := cs\<rparr>)"
  using with_defaults_fields [OF assms]
  by (simp_all add: with_defaults_def int_field_update bool_field_update strings_field_update)

lemma no_file_holds_default:
  "tracker_file fs = Absent \<or> tracker_file fs = Corrupt \<Longrightarrow> holds_state fs default_state"
  by (auto simp: holds_state_def load_tracker_check_def read_tracker_def default_state_encoded)

lemma bash_event_loads: "load_stdin (Parsed (encode_event bash_event)) = Some (encode_event bash_event)"
  by (simp add: load_stdin_def json_load_def encode_event_def bash_event_def)

lemma bash_event_topic:
  "extract_concept ascii_lower (JStr (toolName bash_event)) (JObj (toolInput bash_event)) = Inr None"
  by code_simp

section \<open>The trigger fires: threshold met and cooldown over\<close>

text \<open>
  C1. Whenever the hook starts on a state with the after mode enabled, a tool count of at
  least 3 and at least 900,000 ms between the stored prompt time and the clock (a stored 0
  included), and the file can be written, it exits with status 0 and prints the object with
  the decision \<^verbatim>\<open>block\<close> and, as reason, the instruction text of the source with the hint
  in its two places: the last entry of the recent concepts, or the literal fallback when
  there is none. The file then holds the same state with the tool count 0 and the prompt
  time set to the clock reading.
\<close>

theorem evaluate_blocks:
  assumes "holds_state fs s"
    and "afterModeEnabled s"
    and "3 \<le> toolCount s"
    and "900000 \<le> ms now - lastLearningPromptAt s"
    and "dir_ok fs" and "file_writable fs"
    and "hint = (if recentConcepts s = [] then ''the task you just completed''
                 else last (recentConcepts s))"
  shows "check_learning_main f fs input now =
     \<lparr>exit_status = 0, raised = None,
      stdout = Some (JObj
        [(''decision'', JStr ''block''),
         (''reason'', JStr
           (''[VibeLearning - Task Completion]'' @ [CHR 0x0A, CHR 0x0A] @
            ''Execute these steps NOW:'' @ [CHR 0x0A, CHR 0x0A] @
            ''1. Record 1-2 unknown unknowns (related concepts user might not know):'' @ [CHR 0x0A] @
            ''   mcp__vibe-learning__record_unknown_unknown({'' @ [CHR 0x0A] @ ''     concept_id: '' @
            [CHR 0x22] @ ''related-concept'' @ [CHR 0x22] @ '','' @ [CHR 0x0A] @
            ''     related_to: '' @ [CHR 0x22] @
            hint @
            [CHR 0x22] @ '','' @ [CHR 0x0A] @ ''     context: '' @ [CHR 0x22] @ ''brief context'' @
            [CHR 0x22] @ '','' @ [CHR 0x0A] @ ''     why_important: '' @ [CHR 0x22] @
            ''why important'' @ [CHR 0x22, CHR 0x0A] @ ''   })'' @ [CHR 0x0A, CHR 0x0A] @
            ''2. Call mcp__vibe-learning__should_ask_question to check if learning question needed.'' @
            [CHR 0x0A, CHR 0x0A] @ ''3. If shouldAsk is true:'' @ [CHR 0x0A] @
            ''   - Call mcp__vibe-learning__get_concept_level with concept_id='' @ [CHR 0x27] @
            hint @
            [CHR 0x27, CHR 0x0A] @ ''   - Ask with format:'' @ [CHR 0x0A] @
            ''     **[VibeLearning]**'' @ [CHR 0x0A] @ ''     _Learning Question (Level X)_'' @
            [CHR 0x0A] @ ''     [Your question]?'' @ [CHR 0x0A] @
            ''   - After answer, call mcp__vibe-learning__record_learning'' @ [CHR 0x0A, CHR 0x0A] @
            ''4. If shouldAsk is false: you may stop.''))]),
      fs_after = fs\<lparr>tracker_file :=
                      Stored (encode_state (s\<lparr>toolCount := 0, lastLearningPromptAt := ms now\<rparr>)),
                    writes := Suc (writes fs)\<rparr>\<rparr>"
  using assms
  by (simp add: check_state save_tracker_cases exit0_def concept_hint_def block_def reason_def
      nl_def dq_def sq_def)

theorem evaluate_blocks_witness:
  "holds_state (ex_fs ex_state) ex_state \<and> afterModeEnabled ex_state \<and> 3 \<le> toolCount ex_state
   \<and> 900000 \<le> ms (clock 900000) - lastLearningPromptAt ex_state
   \<and> dir_ok (ex_fs ex_state) \<and> file_writable (ex_fs ex_state)
   \<and> ''authentication'' = (if recentConcepts ex_state = [] then ''the task you just completed''
                            else last (recentConcepts ex_state))
   \<and> check_learning_main (\<lambda>v. []) (ex_fs ex_state) Unparseable (clock 900000) =
     \<lparr>exit_status = 0, raised = None,
      stdout = Some (JObj
        [(''decision'', JStr ''block''),
         (''reason'', JStr
           (''[VibeLearning - Task Completion]'' @ [CHR 0x0A, CHR 0x0A] @
            ''Execute these steps NOW:'' @ [CHR 0x0A, CHR 0x0A] @
            ''1. Record 1-2 unknown unknowns (related concepts user might not know):'' @ [CHR 0x0A] @
            ''   mcp__vibe-learning__record_unknown_unknown({'' @ [CHR 0x0A] @ ''     concept_id: '' @
            [CHR 0x22] @ ''related-concept'' @ [CHR 0x22] @ '','' @ [CHR 0x0A] @
            ''     related_to: '' @ [CHR 0x22] @
            ''authentication'' @
            [CHR 0x22] @ '','' @ [CHR 0x0A] @ ''     context: '' @ [CHR 0x22] @ ''brief context'' @
            [CHR 0x22] @ '','' @ [CHR 0x0A] @ ''     why_important: '' @ [CHR 0x22] @
            ''why important'' @ [CHR 0x22, CHR 0x0A] @ ''   })'' @ [CHR 0x0A, CHR 0x0A] @
            ''2. Call mcp__vibe-learning__should_ask_question to check if learning question needed.'' @
            [CHR 0x0A, CHR 0x0A] @ ''3. If shouldAsk is true:'' @ [CHR 0x0A] @
            ''   - Call mcp__vibe-learning__get_concept_level with concept_id='' @ [CHR 0x27] @
            ''authentication'' @
            [CHR 0x27, CHR 0x0A] @ ''   - Ask with format:'' @ [CHR 0x0A] @
            ''     **[VibeLearning]**'' @ [CHR 0x0A] @ ''     _Learning Question (Level X)_'' @
            [CHR 0x0A] @ ''     [Your question]?'' @ [CHR 0x0A] @
            ''   - After answer, call mcp__vibe-learning__record_learning'' @ [CHR 0x0A, CHR 0x0A] @
            ''4. If shouldAsk is false: you may stop.''))]),
      fs_after = \<lparr>tracker_file = Stored (JObj
                     [(''tool_count'', JInt 0), (''last_learning_prompt'', JInt 900000),
                      (''senior_enabled'', JBool True), (''after_enabled'', JBool True),
                      (''concepts'', JList [JStr ''authentication''])]),
                   dir_ok = True, file_writable = True, writes = 1\<rparr>\<rparr>"
proof -
  have h: "holds_state (ex_fs ex_state) ex_state"
    by (rule holds_ex_fs [OF ex_state_ok])
  have t: "ms (clock 900000) = 900000"
    by (simp add: ms_clock)
  have a: "afterModeEnabled ex_state" and c: "3 \<le> toolCount ex_state"
    and e: "900000 \<le> ms (clock 900000) - lastLearningPromptAt ex_state"
    by (simp_all add: ex_state_def t)
  have d: "dir_ok (ex_fs ex_state)" and w: "file_writable (ex_fs ex_state)"
    by (simp_all add: ex_fs_def)
  have i: "''authentication'' = (if recentConcepts ex_state = [] then ''the task you just completed''
                            else last (recentConcepts ex_state))"
    by (simp add: ex_state_def)
  have r: "ex_fs ex_state\<lparr>tracker_file :=
               Stored (encode_state (ex_state\<lparr>toolCount := 0,
                  lastLearningPromptAt := ms (clock 900000)\<rparr>)),
             writes := Suc (writes (ex_fs ex_state))\<rparr> =
      \<lparr>tracker_file = Stored (JObj
                     [(''tool_count'', JInt 0), (''last_learning_prompt'', JInt 900000),
                      (''senior_enabled'', JBool True), (''after_enabled'', JBool True),
                      (''concepts'', JList [JStr ''authentication''])]),
                   dir_ok = True, file_writable = True, writes = 1\<rparr>"
    by (simp add: t ex_state_def ex_fs_def encode_state_def state_fields_def)
  note m = evaluate_blocks [OF h a c e d w i, of "\<lambda>v. []" Unparseable, unfolded r]
  from m h a c e d w i show ?thesis
    by blast
qed

section \<open>The cooldown suppresses the prompt and keeps the count\<close>

text \<open>
  C2. On a state with a tool count of at least 3 and fewer than 900,000 ms since the stored
  prompt time, the hook exits with status 0, prints nothing and leaves the file system as it
  found it, the tool count included. So, with the after mode enabled and the file writable,
  a second run at a clock reading past the cooldown blocks at once, with no event recorded
  in between.
\<close>

theorem cooldown_allows:
  assumes "holds_state fs s"
    and "3 \<le> toolCount s"
    and "ms now - lastLearningPromptAt s < 900000"
  shows "check_learning_main f fs input now =
           \<lparr>exit_status = 0, raised = None, stdout = None, fs_after = fs\<rparr>
     \<and> (afterModeEnabled s \<and> dir_ok fs \<and> file_writable fs
          \<and> 900000 \<le> ms later - lastLearningPromptAt s \<longrightarrow>
        stdout (check_learning_main f (fs_after (check_learning_main f fs input now)) input' later) =
          Some (block (reason
            (if recentConcepts s = [] then ''the task you just completed''
             else last (recentConcepts s)))))"
  using assms by (simp add: check_state save_tracker_cases exit0_def concept_hint_def)

theorem cooldown_allows_witness:
  "holds_state (ex_fs ex_state) ex_state \<and> 3 \<le> toolCount ex_state
   \<and> ms (clock 1000) - lastLearningPromptAt ex_state < 900000
   \<and> check_learning_main (\<lambda>v. []) (ex_fs ex_state) Unparseable (clock 1000) =
        \<lparr>exit_status = 0, raised = None, stdout = None, fs_after = ex_fs ex_state\<rparr>
   \<and> stdout (check_learning_main (\<lambda>v. [])
         (fs_after (check_learning_main (\<lambda>v. []) (ex_fs ex_state) Unparseable (clock 1000)))
         Unparseable (clock 900000)) =
        Some (block (reason ''authentication''))"
proof -
  have h: "holds_state (ex_fs ex_state) ex_state"
    by (rule holds_ex_fs [OF ex_state_ok])
  have c: "3 \<le> toolCount ex_state"
    by (simp add: ex_state_def)
  have t: "ms (clock 1000) - lastLearningPromptAt ex_state < 900000"
    by (simp add: ex_state_def ms_clock)
  have e: "afterModeEnabled ex_state \<and> dir_ok (ex_fs ex_state) \<and> file_writable (ex_fs ex_state)
      \<and> 900000 \<le> ms (clock 900000) - lastLearningPromptAt ex_state"
    by (simp add: ex_state_def ex_fs_def ms_clock)
  have r: "(if recentConcepts ex_state = [] then ''the task you just completed''
            else last (recentConcepts ex_state)) = ''authentication''"
    by (simp add: ex_state_def)
  note w = cooldown_allows [OF h c t, of "\<lambda>v. []" Unparseable "clock 900000" Unparseable, unfolded r]
  from w e h c t show ?thesis
    by blast
qed

section \<open>The recent concepts stay bounded and free of duplicates\<close>



section \<open>Topic inference is first match in declaration order\<close>

text \<open>
  C4. On a tool input whose path and command fields are strings or missing,
  \<^verbatim>\<open>extract_concept\<close> returns what the first-match reading of the rule list returns: the
  topic of the first rule, in the fixed order, one of whose keywords is a substring of the
  lower-cased path, and only when no rule matches the result of the git test, then of the
  docker test, on the command. This holds whatever \<^verbatim>\<open>str.lower\<close> does. Given what it does
  to ASCII strings: the path \<^verbatim>\<open>src/api/routes/user.tsx\<close> is matched both by the api rule
  and by the .tsx rule, and the result is the topic of the api rule, which comes first; the
  same path in capitals gives the same topic; and a command in capitals matches neither
  command rule.
\<close>

theorem extract_concept_first_match:
  "(string_field ti ''file_path'' = Some fp \<and> string_field ti ''path'' = Some pa
      \<and> string_field ti ''command'' = Some cmd \<longrightarrow>
      extract_concept l tn (JObj ti) = Inr (inferTopic l (if fp = [] then pa else fp) cmd))
   \<and> (lowers_ascii l \<longrightarrow>
      extract_concept l tn (JObj [(''file_path'', JStr ''src/api/routes/user.tsx'')]) =
        Inr (Some ''api-design'')
      \<and> rule_matches l ''src/api/routes/user.tsx'' ([''api'', ''endpoint'', ''route''], ''api-design'')
      \<and> rule_matches l ''src/api/routes/user.tsx'' ([''.tsx'', ''.jsx''], ''react-components'')
      \<and> extract_concept l tn (JObj [(''file_path'', JStr ''SRC/API/Routes/User.TSX'')]) =
        Inr (Some ''api-design'')
      \<and> \<not> rule_matches l ''SRC/API/Routes/User.TSX'' ([''test'', ''spec''], ''unit-testing'')
      \<and> extract_concept l tn (JObj [(''command'', JStr ''GIT status'')]) = Inr None)"
proof (intro conjI impI)
  assume "string_field ti ''file_path'' = Some fp \<and> string_field ti ''path'' = Some pa
      \<and> string_field ti ''command'' = Some cmd"
  then show "extract_concept l tn (JObj ti) = Inr (inferTopic l (if fp = [] then pa else fp) cmd)"
    by (simp add: extract_concept_strings)
next
  assume l: "lowers_ascii l"
  have a: "list_all is_ascii ''src/api/routes/user.tsx''"
    by code_simp
  have "first_pattern ascii_lower patterns ''src/api/routes/user.tsx'' = Some ''api-design''"
    by code_simp
  with lowers_ascii_first_pattern [OF l a]
  show "extract_concept l tn (JObj [(''file_path'', JStr ''src/api/routes/user.tsx'')]) =
        Inr (Some ''api-design'')"
    by (intro path_only_topic) simp_all
  have "rule_matches ascii_lower ''src/api/routes/user.tsx''
      ([''api'', ''endpoint'', ''route''], ''api-design'')"
    by code_simp
  moreover have "list_all (list_all is_ascii) (fst ([''api'', ''endpoint'', ''route''], ''api-design''))"
    by code_simp
  ultimately
  show "rule_matches l ''src/api/routes/user.tsx'' ([''api'', ''endpoint'', ''route''], ''api-design'')"
    using rule_matches_ascii [OF l a] by blast
  have "rule_matches ascii_lower ''src/api/routes/user.tsx''
      ([''.tsx'', ''.jsx''], ''react-components'')"
    by code_simp
  moreover have "list_all (list_all is_ascii) (fst ([''.tsx'', ''.jsx''], ''react-components''))"
    by code_simp
  ultimately
  show "rule_matches l ''src/api/routes/user.tsx'' ([''.tsx'', ''.jsx''], ''react-components'')"
    using rule_matches_ascii [OF l a] by blast
  have b: "list_all is_ascii ''SRC/API/Routes/User.TSX''"
    by code_simp
  have "first_pattern ascii_lower patterns ''SRC/API/Routes/User.TSX'' = Some ''api-design''"
    by code_simp
  with lowers_ascii_first_pattern [OF l b]
  show "extract_concept l tn (JObj [(''file_path'', JStr ''SRC/API/Routes/User.TSX'')]) =
        Inr (Some ''api-design'')"
    by (intro path_only_topic) simp_all
  have "\<not> rule_matches ascii_lower ''SRC/API/Routes/User.TSX'' ([''test'', ''spec''], ''unit-testing'')"
    by code_simp
  moreover have "list_all (list_all is_ascii) (fst ([''test'', ''spec''], ''unit-testing''))"
    by code_simp
  ultimately
  show "\<not> rule_matches l ''SRC/API/Routes/User.TSX'' ([''test'', ''spec''], ''unit-testing'')"
    using rule_matches_ascii [OF l b] by blast
  have e: "list_all is_ascii []"
    by simp
  have "first_pattern ascii_lower patterns [] = None"
    by code_simp
  with lowers_ascii_first_pattern [OF l e]
  have "first_pattern l patterns [] = None"
    by simp
  moreover have "\<not> str_contains ''git'' ''GIT status''" and "\<not> str_contains ''docker'' ''GIT status''"
    by code_simp+
  ultimately show "extract_concept l tn (JObj [(''command'', JStr ''GIT status'')]) = Inr None"
    by (simp add: extract_concept_def)
qed

theorem extract_concept_first_match_witness:
  "string_field commit_input ''file_path'' = Some [] \<and> string_field commit_input ''path'' = Some []
   \<and> string_field commit_input ''command'' = Some ''git commit -m x''
   \<and> lowers_ascii ascii_lower
   \<and> extract_concept ascii_lower (JStr ''Bash'') (JObj commit_input) =
       Inr (inferTopic ascii_lower [] ''git commit -m x'')
   \<and> inferTopic ascii_lower [] ''git commit -m x'' = Some ''git-workflow''
   \<and> extract_concept ascii_lower (JStr ''Edit'')
        (JObj [(''file_path'', JStr ''SRC/API/Routes/User.TSX'')]) = Inr (Some ''api-design'')"
proof -
  have a: "string_field commit_input ''file_path'' = Some [] \<and> string_field commit_input ''path'' = Some []
   \<and> string_field commit_input ''command'' = Some ''git commit -m x''"
    by (simp add: string_field_def commit_input_def)
  have b: "inferTopic ascii_lower [] ''git commit -m x'' = Some ''git-workflow''"
    by code_simp
  have c: "(if [] = [] then [] else []) = ([] :: string)"
    by simp
  have l: "lowers_ascii ascii_lower"
    by (simp add: lowers_ascii_def)
  note w = extract_concept_first_match [of commit_input "[]" "[]" "''git commit -m x''"
      ascii_lower "JStr ''Bash''", unfolded c]
  note v = extract_concept_first_match [of commit_input "[]" "[]" "''git commit -m x''"
      ascii_lower "JStr ''Edit''", unfolded c]
  from w v a b l show ?thesis
    by blast
qed

section \<open>A failing write is not caught\<close>

text \<open>
  C5. Not every run of a hook ends with exit status 0. When the tracker file cannot be
  opened for writing, the exception raised in \<^verbatim>\<open>save_tracker\<close> is caught nowhere and both
  hooks end with status 1, the file untouched; so does the AttributeError raised when the
  event of the recorder, or the tracker file of the trigger, holds a JSON value that is not
  an object.
\<close>

theorem write_failure_exit_status:
  "track_activity_main ascii_lower read_only_fs
       (Parsed (encode_event (edit_event ''src/auth/login.ts''))) =
     \<lparr>exit_status = 1, raised = Some OSError, stdout = None, fs_after = read_only_fs\<rparr>
   \<and> check_learning_main f read_only_fs Unparseable (clock 900000) =
     \<lparr>exit_status = 1, raised = Some OSError, stdout = None, fs_after = read_only_fs\<rparr>
   \<and> track_activity_main l fs (Parsed (JList [])) =
     \<lparr>exit_status = 1, raised = Some AttributeError, stdout = None, fs_after = fs\<rparr>
   \<and> check_learning_main f (fs\<lparr>tracker_file := Stored (JList [])\<rparr>) input now =
     \<lparr>exit_status = 1, raised = Some AttributeError, stdout = None,
      fs_after = fs\<lparr>tracker_file := Stored (JList [])\<rparr>\<rparr>"
proof (intro conjI)
  have h: "holds_state read_only_fs ex_state"
    using ex_state_ok
    by (simp add: holds_state_def read_only_fs_def ex_fs_def load_tracker_check_def
        read_tracker_def json_load_def)
  have sig: "JStr (toolName (edit_event ''src/auth/login.ts'')) \<in> set (map JStr SIGNIFICANT_TOOLS)"
    by (simp add: edit_event_def SIGNIFICANT_TOOLS_def)
  have d: "dir_ok read_only_fs"
    by (simp add: read_only_fs_def ex_fs_def)
  from track_state [OF h edit_event_loads _ sig d _ edit_event_topic]
  show "track_activity_main ascii_lower read_only_fs
       (Parsed (encode_event (edit_event ''src/auth/login.ts''))) =
     \<lparr>exit_status = 1, raised = Some OSError, stdout = None, fs_after = read_only_fs\<rparr>"
    by (simp add: save_tracker_cases uncaught_def) (simp add: read_only_fs_def)
  show "check_learning_main f read_only_fs Unparseable (clock 900000) =
     \<lparr>exit_status = 1, raised = Some OSError, stdout = None, fs_after = read_only_fs\<rparr>"
    by (simp add: check_state [OF h] save_tracker_cases uncaught_def ms_clock)
      (simp add: read_only_fs_def ex_state_def)
  show "track_activity_main l fs (Parsed (JList [])) =
     \<lparr>exit_status = 1, raised = Some AttributeError, stdout = None, fs_after = fs\<rparr>"
    by (simp add: track_activity_main_def load_stdin_def json_load_def uncaught_def)
  show "check_learning_main f (fs\<lparr>tracker_file := Stored (JList [])\<rparr>) input now =
     \<lparr>exit_status = 1, raised = Some AttributeError, stdout = None,
      fs_after = fs\<lparr>tracker_file := Stored (JList [])\<rparr>\<rparr>"
    by (simp add: check_learning_main_def load_tracker_check_def read_tracker_def json_load_def
        uncaught_def Let_def)
qed

section \<open>Tools that do not count\<close>

text \<open>
  C6. For every tool event whose tool name is none of Edit, Write and Bash, and every file
  system (whatever the tracker file holds), the recorder exits with status 0 and leaves the
  file system exactly as it was: the file is not written, the count of writes stays.
\<close>

theorem insignificant_tool_no_write:
  assumes "toolName ev \<notin> {''Edit'', ''Write'', ''Bash''}"
  shows "track_activity_main l fs (Parsed (encode_event ev)) =
           \<lparr>exit_status = 0, raised = None, stdout = None, fs_after = fs\<rparr>"
  using assms
  by (cases "load_stdin (Parsed (encode_event ev))")
    (auto simp add: track_activity_main_def significant_mem significant_set exit0_def
      load_stdin_def json_load_def split: if_splits simp del: set_map)

theorem insignificant_tool_no_write_witness:
  "toolName read_event \<notin> {''Edit'', ''Write'', ''Bash''}
   \<and> track_activity_main ascii_lower (ex_fs ex_state) (Parsed (encode_event read_event)) =
       \<lparr>exit_status = 0, raised = None, stdout = None, fs_after = ex_fs ex_state\<rparr>"
proof -
  have n: "toolName read_event \<notin> {''Edit'', ''Write'', ''Bash''}"
    by (simp add: read_event_def)
  from insignificant_tool_no_write [OF n, of ascii_lower "ex_fs ex_state"] n show ?thesis
    by blast
qed

section \<open>The prompt time and a write that is cut off\<close>




section \<open>A topic that is already recorded\<close>




section \<open>The trigger does not look at the event\<close>

text \<open>
  C9. For any two contents of standard input, parseable or not, the trigger run on the
  same file system at the same clock reading has the same outcome: exit status, printed
  decision and file system afterwards.
\<close>

theorem evaluate_ignores_event:
  "check_learning_main f fs input1 now = check_learning_main f fs input2 now"
  by (simp add: check_learning_main_def Let_def)

section \<open>Fields missing from the stored object\<close>

text \<open>
  C10. When the tracker file holds a JSON object in which some of the fields are missing
  (and those present have their types), \<^verbatim>\<open>load_tracker\<close> returns that object as it is, and
  both hooks behave as on the state read with each missing field at its own default: tool
  count 0, prompt time 0, after mode true, no recent concepts. The trigger decides by that
  state and writes the object with the two fields it sets, every other field as it was; the
  recorder writes an object that, read again, is that state with the count raised and
  the topic recorded (unless the raised count reaches the digit limit, where the write is
  cut off). The default record as a whole, with its five fields, is what \<^verbatim>\<open>load_tracker\<close>
  returns when the file is absent or cannot be loaded: the trigger then lets the session
  stop and the recorder writes that record with the count 1.
\<close>

theorem missing_fields_default:
  assumes "tracker_file fs = Stored (JObj kvs)"
    and "digits_ok (JObj kvs)"
    and "with_defaults kvs = Some s"
    and "dir_ok fs" and "file_writable fs"
  shows "load_tracker_check fs = JObj kvs \<and> load_tracker_track fs = Inr (JObj kvs)
     \<and> check_learning_main f fs input now =
         (if afterModeEnabled s \<and> 3 \<le> toolCount s \<and> 900000 \<le> ms now - lastLearningPromptAt s
          then \<lparr>exit_status = 0, raised = None,
                stdout = Some (block (reason (concept_hint (recentConcepts s)))),
                fs_after = fs\<lparr>tracker_file := Stored (JObj
                               (AList.update ''last_learning_prompt'' (JInt (ms now))
                                 (AList.update ''tool_count'' (JInt 0) kvs))),
                              writes := Suc (writes fs)\<rparr>\<rparr>
          else \<lparr>exit_status = 0, raised = None, stdout = None, fs_after = fs\<rparr>)
     \<and> with_defaults (AList.update ''last_learning_prompt'' (JInt (ms now))
                        (AList.update ''tool_count'' (JInt 0) kvs)) =
         Some (s\<lparr>toolCount := 0, lastLearningPromptAt := ms now\<rparr>)
     \<and> (load_stdin event = Some (encode_event ev)
          \<and> toolName ev \<in> {''Edit'', ''Write'', ''Bash''}
          \<and> extract_concept l (JStr (toolName ev)) (JObj (toolInput ev)) = Inr topic \<longrightarrow>
        (if toolCount s + 1 < digit_limit
         then (\<exists>kvs'. track_activity_main l fs event =
                 \<lparr>exit_status = 0, raised = None, stdout = None,
                  fs_after = fs\<lparr>tracker_file := Stored (JObj kvs'), writes := Suc (writes fs)\<rparr>\<rparr>
               \<and> with_defaults kvs' =
                   Some (s\<lparr>toolCount := toolCount s + 1,
                           recentConcepts := (case topic of None \<Rightarrow> recentConcepts s
                                              | Some c \<Rightarrow> push_concept c (recentConcepts s))\<rparr>))
         else track_activity_main l fs event =
                \<lparr>exit_status = 1, raised = Some ValueError, stdout = None,
                 fs_after = fs\<lparr>tracker_file := Corrupt\<rparr>\<rparr>))
     \<and> (tracker_file fs0 = Absent \<or> tracker_file fs0 = Corrupt \<longrightarrow>
          load_tracker_check fs0 =
            JObj [(''tool_count'', JInt 0), (''last_learning_prompt'', JInt 0),
                  (''senior_enabled'', JBool True), (''after_enabled'', JBool True),
                  (''concepts'', JList [])]
          \<and> check_learning_main f fs0 input now =
              \<lparr>exit_status = 0, raised = None, stdout = None, fs_after = fs0\<rparr>
          \<and> (dir_ok fs0 \<and> file_writable fs0 \<and> load_stdin event = Some (encode_event ev)
               \<and> toolName ev \<in> {''Edit'', ''Write'', ''Bash''}
               \<and> extract_concept l (JStr (toolName ev)) (JObj (toolInput ev)) = Inr None \<longrightarrow>
              load_tracker_track fs0 =
                Inr (JObj [(''tool_count'', JInt 0), (''last_learning_prompt'', JInt 0),
                           (''senior_enabled'', JBool True), (''after_enabled'', JBool True),
                           (''concepts'', JList [])])
              \<and> track_activity_main l fs0 event =
                  \<lparr>exit_status = 0, raised = None, stdout = None,
                   fs_after = fs0\<lparr>tracker_file := Stored (JObj
                       [(''tool_count'', JInt 1), (''last_learning_prompt'', JInt 0),
                        (''senior_enabled'', JBool True), (''after_enabled'', JBool True),
                        (''concepts'', JList [])]),
                     writes := Suc (writes fs0)\<rparr>\<rparr>))"
proof (intro conjI impI)
  show "load_tracker_check fs = JObj kvs"
    by (rule stored_object_loads(1) [OF assms(1,2)])
  show "load_tracker_track fs = Inr (JObj kvs)"
    by (rule stored_object_loads(2) [OF assms(1,2,4)])
  have "digits_ok (JObj (AList.update ''last_learning_prompt'' (JInt (ms now))
                           (AList.update ''tool_count'' (JInt 0) kvs)))"
    using assms(2) by (simp add: digits_ok_update_ok del: digits_ok.simps(3))
  then show "check_learning_main f fs input now =
         (if afterModeEnabled s \<and> 3 \<le> toolCount s \<and> 900000 \<le> ms now - lastLearningPromptAt s
          then \<lparr>exit_status = 0, raised = None,
                stdout = Some (block (reason (concept_hint (recentConcepts s)))),
                fs_after = fs\<lparr>tracker_file := Stored (JObj
                               (AList.update ''last_learning_prompt'' (JInt (ms now))
                                 (AList.update ''tool_count'' (JInt 0) kvs))),
                              writes := Suc (writes fs)\<rparr>\<rparr>
          else \<lparr>exit_status = 0, raised = None, stdout = None, fs_after = fs\<rparr>)"
    using assms(4,5)
    by (simp add: check_fields [OF assms(1,2,3)] save_tracker_cases exit0_def
        del: digits_ok.simps(3))
  show "with_defaults (AList.update ''last_learning_prompt'' (JInt (ms now))
                        (AList.update ''tool_count'' (JInt 0) kvs)) =
         Some (s\<lparr>toolCount := 0, lastLearningPromptAt := ms now\<rparr>)"
    by (rule with_defaults_after_check [OF assms(3)])
next
  assume ev: "load_stdin event = Some (encode_event ev)
          \<and> toolName ev \<in> {''Edit'', ''Write'', ''Bash''}
          \<and> extract_concept l (JStr (toolName ev)) (JObj (toolInput ev)) = Inr topic"
  then have sig: "JStr (toolName ev) \<in> set (map JStr SIGNIFICANT_TOOLS)"
    by (simp add: significant_mem significant_set del: set_map)
  from ev have ld: "load_stdin event = Some (encode_event ev)"
    and ex: "extract_concept l (JStr (toolName ev)) (JObj (toolInput ev)) = Inr topic"
    by simp_all
  define kvs1 where "kvs1 = AList.update ''tool_count'' (JInt (toolCount s + 1)) kvs"
  define cs where "cs = (case topic of None \<Rightarrow> recentConcepts s
                         | Some c \<Rightarrow> push_concept c (recentConcepts s))"
  define kvs' where "kvs' = (case topic of None \<Rightarrow> kvs1
       | Some c \<Rightarrow> if c \<in> set (recentConcepts s) then kvs1
                   else AList.update ''concepts'' (JList (map JStr cs)) kvs1)"
  have m: "track_activity_main l fs event =
      attempt_save (save_tracker fs (JObj kvs')) (\<lambda>fs'. exit0 fs' None)"
    using track_fields [OF assms(1,2,3) ld _ sig assms(4) _ ex]
    by (cases topic) (simp_all add: kvs'_def kvs1_def cs_def)
  have io: "int_ok (toolCount s)"
    using digits_ok_int_field [OF assms(2) with_defaults_fields(1) [OF assms(3)]] .
  have ok1: "digits_ok (JObj kvs1) \<longleftrightarrow> toolCount s + 1 < digit_limit"
    using assms(2) io
    by (simp add: kvs1_def digits_ok_update_ok int_ok_succ del: digits_ok.simps(3))
  have tc: "map_of kvs' ''tool_count'' = Some (JInt (toolCount s + 1))"
    by (cases topic) (simp_all add: kvs'_def kvs1_def update_conv')
  have ok: "digits_ok (JObj kvs') \<longleftrightarrow> toolCount s + 1 < digit_limit"
  proof
    assume "digits_ok (JObj kvs')"
    from digits_ok_lookup [OF this tc] io show "toolCount s + 1 < digit_limit"
      by (simp add: int_ok_succ)
  next
    assume "toolCount s + 1 < digit_limit"
    with ok1 have "digits_ok (JObj kvs1)"
      by simp
    then show "digits_ok (JObj kvs')"
      by (cases topic) (simp_all add: kvs'_def digits_ok_update_ok del: digits_ok.simps(3))
  qed
  have wd: "with_defaults kvs' = Some (s\<lparr>toolCount := toolCount s + 1, recentConcepts := cs\<rparr>)"
    by (cases topic)
      (simp_all add: kvs'_def kvs1_def cs_def with_defaults_after_track [OF assms(3)]
        push_concept_known)
  show "if toolCount s + 1 < digit_limit
         then (\<exists>kvs'. track_activity_main l fs event =
                 \<lparr>exit_status = 0, raised = None, stdout = None,
                  fs_after = fs\<lparr>tracker_file := Stored (JObj kvs'), writes := Suc (writes fs)\<rparr>\<rparr>
               \<and> with_defaults kvs' =
                   Some (s\<lparr>toolCount := toolCount s + 1,
                           recentConcepts := (case topic of None \<Rightarrow> recentConcepts s
                                              | Some c \<Rightarrow> push_concept c (recentConcepts s))\<rparr>))
         else track_activity_main l fs event =
                \<lparr>exit_status = 1, raised = Some ValueError, stdout = None,
                 fs_after = fs\<lparr>tracker_file := Corrupt\<rparr>\<rparr>"
  proof (cases "toolCount s + 1 < digit_limit")
    case True
    with m ok assms(4,5) have "track_activity_main l fs event =
        \<lparr>exit_status = 0, raised = None, stdout = None,
         fs_after = fs\<lparr>tracker_file := Stored (JObj kvs'), writes := Suc (writes fs)\<rparr>\<rparr>"
      by (simp add: save_tracker_cases exit0_def del: digits_ok.simps(3))
    with wd True show ?thesis
      unfolding cs_def by auto
  next
    case False
    with m ok assms(4,5) show ?thesis
      by (simp add: save_tracker_cases uncaught_def del: digits_ok.simps(3))
  qed
next
  assume "tracker_file fs0 = Absent \<or> tracker_file fs0 = Corrupt"
  then show "load_tracker_check fs0 =
            JObj [(''tool_count'', JInt 0), (''last_learning_prompt'', JInt 0),
                  (''senior_enabled'', JBool True), (''after_enabled'', JBool True),
                  (''concepts'', JList [])]"
    by (auto simp: load_tracker_check_def read_tracker_def default_tracker_def)
next
  assume "tracker_file fs0 = Absent \<or> tracker_file fs0 = Corrupt"
  then have "holds_state fs0 default_state"
    by (rule no_file_holds_default)
  from check_state [OF this, of f input now]
  show "check_learning_main f fs0 input now =
              \<lparr>exit_status = 0, raised = None, stdout = None, fs_after = fs0\<rparr>"
    by (simp add: default_state_def exit0_def)
next
  assume "tracker_file fs0 = Absent \<or> tracker_file fs0 = Corrupt"
    and "dir_ok fs0 \<and> file_writable fs0 \<and> load_stdin event = Some (encode_event ev)
               \<and> toolName ev \<in> {''Edit'', ''Write'', ''Bash''}
               \<and> extract_concept l (JStr (toolName ev)) (JObj (toolInput ev)) = Inr None"
  then show "load_tracker_track fs0 =
                Inr (JObj [(''tool_count'', JInt 0), (''last_learning_prompt'', JInt 0),
                           (''senior_enabled'', JBool True), (''after_enabled'', JBool True),
                           (''concepts'', JList [])])"
    by (auto simp: load_tracker_track_def ensure_dir_def read_tracker_def default_tracker_def)
next
  assume a: "tracker_file fs0 = Absent \<or> tracker_file fs0 = Corrupt"
    and e: "dir_ok fs0 \<and> file_writable fs0 \<and> load_stdin event = Some (encode_event ev)
               \<and> toolName ev \<in> {''Edit'', ''Write'', ''Bash''}
               \<and> extract_concept l (JStr (toolName ev)) (JObj (toolInput ev)) = Inr None"
  from a have h: "holds_state fs0 default_state"
    by (rule no_file_holds_default)
  from e have sig: "JStr (toolName ev) \<in> set (map JStr SIGNIFICANT_TOOLS)"
    by (simp add: significant_mem significant_set del: set_map)
  have ok: "digits_ok (encode_state (default_state\<lparr>toolCount := toolCount default_state + 1,
                recentConcepts := recentConcepts default_state\<rparr>))"
    by (simp add: digits_ok_state default_state_def small_int_ok)
  from e track_state [OF h _ _ sig, of event "encode_event ev" "JObj (toolInput ev)" l None]
  have "track_activity_main l fs0 event =
      attempt_save (save_tracker fs0 (encode_state
        (default_state\<lparr>toolCount := toolCount default_state + 1,
           recentConcepts := recentConcepts default_state\<rparr>)))
       (\<lambda>fs'. exit0 fs' None)"
    by simp
  with e ok show "track_activity_main l fs0 event =
                  \<lparr>exit_status = 0, raised = None, stdout = None,
                   fs_after = fs0\<lparr>tracker_file := Stored (JObj
                       [(''tool_count'', JInt 1), (''last_learning_prompt'', JInt 0),
                        (''senior_enabled'', JBool True), (''after_enabled'', JBool True),
                        (''concepts'', JList [])]),
                     writes := Suc (writes fs0)\<rparr>\<rparr>"
    by (simp add: save_tracker_cases exit0_def)
      (simp add: encode_state_def state_fields_def default_state_def)
qed

theorem missing_fields_default_witness:
  "tracker_file partial_fs = Stored (JObj partial_fields)
   \<and> digits_ok (JObj partial_fields)
   \<and> with_defaults partial_fields = Some partial_state
   \<and> dir_ok partial_fs \<and> file_writable partial_fs
   \<and> check_learning_main (\<lambda>v. []) partial_fs Unparseable (clock 900000) =
       \<lparr>exit_status = 0, raised = None,
        stdout = Some (block (reason ''the task you just completed'')),
        fs_after = \<lparr>tracker_file = Stored (JObj
             [(''tool_count'', JInt 0), (''last_learning_prompt'', JInt 900000)]),
           dir_ok = True, file_writable = True, writes = 1\<rparr>\<rparr>
   \<and> track_activity_main ascii_lower partial_fs
        (Parsed (encode_event (edit_event ''src/auth/login.ts''))) =
       \<lparr>exit_status = 0, raised = None, stdout = None,
        fs_after = \<lparr>tracker_file = Stored (JObj
             [(''tool_count'', JInt 6), (''concepts'', JList [JStr ''authentication''])]),
           dir_ok = True, file_writable = True, writes = 1\<rparr>\<rparr>
   \<and> tracker_file absent_fs = Absent
   \<and> load_tracker_check absent_fs =
       JObj [(''tool_count'', JInt 0), (''last_learning_prompt'', JInt 0),
             (''senior_enabled'', JBool True), (''after_enabled'', JBool True),
             (''concepts'', JList [])]
   \<and> check_learning_main (\<lambda>v. []) absent_fs Unparseable (clock 900000) =
       \<lparr>exit_status = 0, raised = None, stdout = None, fs_after = absent_fs\<rparr>
   \<and> track_activity_main ascii_lower absent_fs (Parsed (encode_event bash_event)) =
       \<lparr>exit_status = 0, raised = None, stdout = None,
        fs_after = \<lparr>tracker_file = Stored (JObj
             [(''tool_count'', JInt 1), (''last_learning_prompt'', JInt 0),
              (''senior_enabled'', JBool True), (''after_enabled'', JBool True),
              (''concepts'', JList [])]),
           dir_ok = True, file_writable = True, writes = 1\<rparr>\<rparr>"
proof -
  have a: "tracker_file partial_fs = Stored (JObj partial_fields)"
    and d: "dir_ok partial_fs" and w: "file_writable partial_fs"
    by (simp_all add: partial_fs_def)
  have o: "digits_ok (JObj partial_fields)"
    by (simp add: partial_fields_def small_int_ok)
  have b: "with_defaults partial_fields = Some partial_state"
    by (simp add: with_defaults_def partial_fields_def partial_state_def int_field_def
        bool_field_def strings_field_def)
  have t: "ms (clock 900000) = 900000"
    by (simp add: ms_clock)
  have c: "(if afterModeEnabled partial_state \<and> 3 \<le> toolCount partial_state
              \<and> 900000 \<le> 900000 - lastLearningPromptAt partial_state then x else y) = x"
    for x y :: outcome
    by (simp add: partial_state_def)
  have h: "concept_hint (recentConcepts partial_state) = ''the task you just completed''"
    by (simp add: concept_hint_def partial_state_def)
  have r: "partial_fs\<lparr>tracker_file := Stored (JObj
              (AList.update ''last_learning_prompt'' (JInt 900000)
                (AList.update ''tool_count'' (JInt 0) partial_fields))),
            writes := Suc (writes partial_fs)\<rparr> =
        \<lparr>tracker_file = Stored (JObj
             [(''tool_count'', JInt 0), (''last_learning_prompt'', JInt 900000)]),
           dir_ok = True, file_writable = True, writes = 1\<rparr>"
    by (simp add: partial_fs_def partial_fields_def)
  have sig: "JStr (toolName (edit_event ''src/auth/login.ts'')) \<in> set (map JStr SIGNIFICANT_TOOLS)"
    by (simp add: edit_event_def SIGNIFICANT_TOOLS_def)
  have k: "digits_ok (JObj [(''tool_count'', JInt 6), (''concepts'', JList [JStr ''authentication''])])"
    by (simp add: small_int_ok)
  have tr: "track_activity_main ascii_lower partial_fs
        (Parsed (encode_event (edit_event ''src/auth/login.ts''))) =
       \<lparr>exit_status = 0, raised = None, stdout = None,
        fs_after = \<lparr>tracker_file = Stored (JObj
             [(''tool_count'', JInt 6), (''concepts'', JList [JStr ''authentication''])]),
           dir_ok = True, file_writable = True, writes = 1\<rparr>\<rparr>"
    using track_fields [OF a o b edit_event_loads _ sig d _ edit_event_topic] k
    by (simp add: partial_fields_def partial_state_def push_concept_def save_tracker_cases d w
        exit0_def del: digits_ok.simps)
      (simp add: partial_fs_def)
  have ab: "tracker_file absent_fs = Absent"
    and p0: "dir_ok absent_fs \<and> file_writable absent_fs
       \<and> load_stdin (Parsed (encode_event bash_event)) = Some (encode_event bash_event)
       \<and> toolName bash_event \<in> {''Edit'', ''Write'', ''Bash''}
       \<and> extract_concept ascii_lower (JStr (toolName bash_event)) (JObj (toolInput bash_event)) =
           Inr None"
    by (simp_all add: absent_fs_def bash_event_loads bash_event_topic) (simp add: bash_event_def)
  have r0: "absent_fs\<lparr>tracker_file := Stored (JObj
                       [(''tool_count'', JInt 1), (''last_learning_prompt'', JInt 0),
                        (''senior_enabled'', JBool True), (''after_enabled'', JBool True),
                        (''concepts'', JList [])]),
                     writes := Suc (writes absent_fs)\<rparr> =
      \<lparr>tracker_file = Stored (JObj
             [(''tool_count'', JInt 1), (''last_learning_prompt'', JInt 0),
              (''senior_enabled'', JBool True), (''after_enabled'', JBool True),
              (''concepts'', JList [])]),
           dir_ok = True, file_writable = True, writes = 1\<rparr>"
    by (simp add: absent_fs_def)
  note m = missing_fields_default [OF a o b d w, where f = "\<lambda>v. []" and input = Unparseable
      and now = "clock 900000" and ?fs0.0 = absent_fs and l = ascii_lower
      and event = "Parsed (encode_event bash_event)" and ev = bash_event,
      unfolded t c h r r0]
  from m a o b d w tr ab p0 show ?thesis
    by blast
qed

end
